theory Spec2Isabelle
  imports Complex_Main
begin

section \<open>Data model (app/models.py, app/schemas.py)\<close>

subsection \<open>Enumerations\<close>

text \<open>
  \<^verbatim>\<open>class UserRole(enum.Enum)\<close> is a plain enumeration; \<^verbatim>\<open>class TrialStatus(str, enum.Enum)\<close>
  mixes in \<^verbatim>\<open>str\<close>. For each member of \<open>TrialStatus\<close> the member name and the member
  value are the same string, so one function gives both (the database column stores the
  name, Python string comparison looks at the value).
\<close>

datatype UserRole = seeker | gym_owner | customer | admin

datatype TrialStatus = pending | accepted | rejected

fun TrialStatus_value :: "TrialStatus \<Rightarrow> string" where
  "TrialStatus_value pending = ''pending''"
| "TrialStatus_value accepted = ''accepted''"
| "TrialStatus_value rejected = ''rejected''"

definition TrialStatus_of_name :: "string \<Rightarrow> TrialStatus option" where
  "TrialStatus_of_name s = find (\<lambda>st. TrialStatus_value st = s) [pending, accepted, rejected]"

subsection \<open>Python values and equality\<close>

type_synonym datetime = int

datatype pyval =
    PNone
  | PBool bool
  | PInt int
  | PFloat real
  | PStr string
  | PDatetime datetime
  | PUserRole UserRole
  | PTrialStatus TrialStatus
  | PRelationship

text \<open>
  Python's \<^verbatim>\<open>==\<close>. Numbers compare by value, \<^verbatim>\<open>str\<close> instances compare by their
  characters, and a member of \<open>TrialStatus\<close> is a \<^verbatim>\<open>str\<close> instance. A member of
  \<open>UserRole\<close> is not: \<^verbatim>\<open>Enum\<close> keeps the default identity comparison, so it equals
  only itself and never a string.
\<close>

fun py_num :: "pyval \<Rightarrow> real option" where
  "py_num (PBool b) = Some (if b then 1 else 0)"
| "py_num (PInt i) = Some (real_of_int i)"
| "py_num (PFloat r) = Some r"
| "py_num _ = None"

fun py_str :: "pyval \<Rightarrow> string option" where
  "py_str (PStr s) = Some s"
| "py_str (PTrialStatus t) = Some (TrialStatus_value t)"
| "py_str _ = None"

definition py_eq :: "pyval \<Rightarrow> pyval \<Rightarrow> bool" where
  "py_eq v w =
     (case (py_num v, py_num w) of
        (Some a, Some b) \<Rightarrow> a = b
      | _ \<Rightarrow> (case (py_str v, py_str w) of
                (Some a, Some b) \<Rightarrow> a = b
              | _ \<Rightarrow> v = w))"

text \<open>\<^verbatim>\<open>x in container\<close> for a list or a set of values.\<close>

definition py_in :: "pyval \<Rightarrow> pyval list \<Rightarrow> bool" where
  "py_in v xs = list_ex (py_eq v) xs"

subsection \<open>Errors\<close>

text \<open>
  Every \<^verbatim>\<open>raise\<close> is a value. \<open>HTTPException\<close> carries the status code and the detail;
  the other constructors are the Python and database exceptions that the handlers let
  escape.
\<close>

datatype error =
    HTTPException nat string
  | AttributeError string
  | TypeError string
  | IntegrityError string
  | StatementError string
  | DataError string

text \<open>
  The status that an exception leaving a handler gives the response: the code of an
  \<open>HTTPException\<close>, 500 for any other exception. A returned value fixes no status
  here: the response is then built from the endpoint's \<^verbatim>\<open>response_model\<close>, outside the
  handler.
\<close>

fun http_status_of :: "error + 'a \<Rightarrow> nat option" where
  "http_status_of (Inr _) = None"
| "http_status_of (Inl (HTTPException c _)) = Some c"
| "http_status_of (Inl _) = Some 500"

subsection \<open>Rows\<close>

text \<open>
  One record per mapped class, one field per \<^verbatim>\<open>Column\<close>; the field of column \<open>c\<close> of
  class \<open>User\<close>, \<open>Gym\<close>, \<open>Trainer\<close>, \<open>TrialBooking\<close> is \<open>user_c\<close>, \<open>gym_c\<close>,
  \<open>trainer_c\<close>, \<open>tb_c\<close>. A nullable column is an \<open>option\<close>.
\<close>

record User =
  user_id :: int
  user_name :: string
  user_email :: string
  user_hashed_password :: string
  user_role :: UserRole

record Gym =
  gym_id :: int
  gym_owner_id :: int
  gym_name :: string
  gym_address :: string
  gym_subscription_fee :: int
  gym_trial_available :: "bool option"
  gym_description :: "string option"
  gym_location_lat :: "real option"
  gym_location_lng :: "real option"
  gym_created_at :: "datetime option"

record Trainer =
  trainer_id :: int
  trainer_gym_id :: int
  trainer_name :: string
  trainer_specialty :: "string option"
  trainer_fee :: "int option"

record TrialBooking =
  tb_id :: int
  tb_user_id :: int
  tb_gym_id :: int
  tb_status :: TrialStatus
  tb_created_at :: "datetime option"

text \<open>
  The store behind a \<^verbatim>\<open>Session\<close>: the four tables in row order, and the sequence that
  numbers new rows of \<open>trial_bookings\<close>.
\<close>

record Session =
  users :: "User list"
  gyms :: "Gym list"
  trainers :: "Trainer list"
  trial_bookings :: "TrialBooking list"
  trial_bookings_id_seq :: int

subsection \<open>Request bodies\<close>

text \<open>
  \<^verbatim>\<open>class TrialBookingBase(BaseModel): gym_id: int\<close> and
  \<^verbatim>\<open>class TrialBookingCreate(TrialBookingBase): pass\<close>: the parsed body has the one field
  \<open>gym_id\<close>. Reading any other attribute of the object raises \<open>AttributeError\<close>.
\<close>

record TrialBookingCreate =
  tbc_gym_id :: int

definition TrialBookingCreate_getattr :: "TrialBookingCreate \<Rightarrow> string \<Rightarrow> error + pyval" where
  "TrialBookingCreate_getattr obj name =
     (case map_of [(''gym_id'', PInt (tbc_gym_id obj))] name of
        Some v \<Rightarrow> Inr v
      | None \<Rightarrow> Inl (AttributeError (''TrialBookingCreate object has no attribute '' @ name)))"

text \<open>
  Modelled from the spec: \<^verbatim>\<open>schemas.TrialStatusUpdate\<close>, the body type of
  \<^verbatim>\<open>update_trial_status\<close>, is not declared in app/schemas.py. The specification gives
  the body of \<^verbatim>\<open>PUT /trials/{id}/status\<close> as the single field \<open>status_update\<close>, and a
  value outside the three statuses reaches the handler (it answers BadRequest), so
  the field holds the string the client sent.
\<close>

record TrialStatusUpdate =
  status_update :: string

section \<open>app/crud.py\<close>

text \<open>\<^verbatim>\<open>db.query(M).filter(p).first()\<close> is the first row of the table that satisfies \<open>p\<close>.\<close>

definition crud_get_gym :: "Session \<Rightarrow> int \<Rightarrow> Gym option" where
  "crud_get_gym db gid = find (\<lambda>g. gym_id g = gid) (gyms db)"

text \<open>
  \<^verbatim>\<open>crud.update_trial_status(db, trial_id, status)\<close>: the row is looked up by primary key;
  a missing row gives \<^verbatim>\<open>None\<close>. The assignment is flushed by \<^verbatim>\<open>commit\<close> as
  \<^verbatim>\<open>UPDATE trial_bookings SET status = ... WHERE id = ...\<close>; a string that names no member
  of the enumeration is refused there.
\<close>

definition set_trial_status :: "int \<Rightarrow> TrialStatus \<Rightarrow> Session \<Rightarrow> Session" where
  "set_trial_status trial_id st db =
     db\<lparr>trial_bookings :=
          map (\<lambda>t. if tb_id t = trial_id then t\<lparr>tb_status := st\<rparr> else t) (trial_bookings db)\<rparr>"

definition crud_update_trial_status ::
  "Session \<Rightarrow> int \<Rightarrow> string \<Rightarrow> (error + TrialBooking option) \<times> Session" where
  "crud_update_trial_status db trial_id status =
     (case find (\<lambda>t. tb_id t = trial_id) (trial_bookings db) of
        None \<Rightarrow> (Inr None, db)
      | Some db_trial \<Rightarrow>
          (case TrialStatus_of_name status of
             None \<Rightarrow> (Inl (StatementError (status @ '' is not among the defined enum values'')), db)
           | Some st \<Rightarrow> (Inr (Some (db_trial\<lparr>tb_status := st\<rparr>)), set_trial_status trial_id st db)))"

section \<open>app/routes/trials.py\<close>

text \<open>
  The relationship \<^verbatim>\<open>trial.gym\<close>: the gym row whose primary key is the booking's
  \<open>gym_id\<close>, \<^verbatim>\<open>None\<close> when the store has none.
\<close>

definition TrialBooking_gym :: "Session \<Rightarrow> TrialBooking \<Rightarrow> Gym option" where
  "TrialBooking_gym db t = find (\<lambda>g. gym_id g = tb_gym_id t) (gyms db)"

definition allowed_statuses :: "pyval list" where
  "allowed_statuses = [PTrialStatus pending, PTrialStatus accepted, PTrialStatus rejected]"

text \<open>
  \<^verbatim>\<open>update_trial_status(trial_id, request, db, current_user)\<close>, the handler of
  \<^verbatim>\<open>PUT /trials/{trial_id}/status\<close>. The result is the value returned or the exception
  raised, with the store after the call. The detail of the 400 answer interpolates the
  set of allowed statuses, whose print order Python does not fix; the model keeps the
  fixed part of the message.
\<close>

definition trials_update_trial_status ::
  "int \<Rightarrow> TrialStatusUpdate \<Rightarrow> Session \<Rightarrow> User \<Rightarrow> (error + TrialBooking) \<times> Session" where
  "trials_update_trial_status trial_id request db current_user =
     (case find (\<lambda>t. tb_id t = trial_id) (trial_bookings db) of
        None \<Rightarrow> (Inl (HTTPException 404 ''Trial booking not found''), db)
      | Some trial \<Rightarrow>
          (case TrialBooking_gym db trial of
             None \<Rightarrow> (Inl (AttributeError ''NoneType object has no attribute owner_id''), db)
           | Some gym \<Rightarrow>
               if gym_owner_id gym \<noteq> user_id current_user
                  \<and> \<not> py_eq (PUserRole (user_role current_user)) (PStr ''admin'')
               then (Inl (HTTPException 403 ''Not authorized to update this trial booking''), db)
               else if \<not> py_in (PStr (status_update request)) allowed_statuses
               then (Inl (HTTPException 400 ''Status must be one of ''), db)
               else (case TrialStatus_of_name (status_update request) of
                       None \<Rightarrow> (Inl (StatementError (status_update request
                                  @ '' is not among the defined enum values'')), db)
                     | Some st \<Rightarrow> (Inr (trial\<lparr>tb_status := st\<rparr>),
                                   set_trial_status trial_id st db))))"

text \<open>
  The constructor that the declarative base gives \<^verbatim>\<open>models.TrialBooking\<close>: a keyword that
  is not an attribute of the class raises \<open>TypeError\<close>, the others are set on the new
  object. The class has the columns \<open>id\<close>, \<open>user_id\<close>, \<open>gym_id\<close>, \<open>status\<close>,
  \<open>created_at\<close> and the relationships \<open>user\<close> and \<open>gym\<close>.
\<close>

definition TrialBooking_attrs :: "string list" where
  "TrialBooking_attrs =
     [''id'', ''user_id'', ''gym_id'', ''status'', ''created_at'', ''user'', ''gym'']"

definition TrialBooking_init :: "(string \<times> pyval) list \<Rightarrow> error + (string \<times> pyval) list" where
  "TrialBooking_init kwargs =
     (case find (\<lambda>kv. fst kv \<notin> set TrialBooking_attrs) kwargs of
        Some kv \<Rightarrow> Inl (TypeError (fst kv @ '' is an invalid keyword argument for TrialBooking''))
      | None \<Rightarrow> Inr kwargs)"

text \<open>
  \<^verbatim>\<open>db.add(obj); db.commit(); db.refresh(obj)\<close> for a new booking: the INSERT takes the
  primary key from the sequence, \<open>status\<close> defaults to \<open>pending\<close>, \<open>created_at\<close>
  defaults to the clock reading \<open>now\<close>, and the database refuses a missing \<open>user_id\<close>
  or \<open>gym_id\<close> and a reference to a user or gym that is not there.
\<close>

definition insert_trial_booking ::
  "(string \<times> pyval) list \<Rightarrow> datetime \<Rightarrow> Session \<Rightarrow> (error + TrialBooking) \<times> Session" where
  "insert_trial_booking obj now db =
     (case (map_of obj ''user_id'', map_of obj ''gym_id'') of
        (Some (PInt uid), Some (PInt gid)) \<Rightarrow>
          (case (case map_of obj ''status'' of
                   None \<Rightarrow> Some pending
                 | Some v \<Rightarrow> (case py_str v of None \<Rightarrow> None | Some s \<Rightarrow> TrialStatus_of_name s)) of
             None \<Rightarrow> (Inl (StatementError ''status is not among the defined enum values''), db)
           | Some st \<Rightarrow>
               if find (\<lambda>u. user_id u = uid) (users db) = None
                  \<or> find (\<lambda>g. gym_id g = gid) (gyms db) = None
               then (Inl (IntegrityError ''violates foreign key constraint''), db)
               else
                 (let row = \<lparr>tb_id = trial_bookings_id_seq db, tb_user_id = uid, tb_gym_id = gid,
                             tb_status = st, tb_created_at = Some now\<rparr>
                  in (Inr row,
                      db\<lparr>trial_bookings := trial_bookings db @ [row],
                         trial_bookings_id_seq := trial_bookings_id_seq db + 1\<rparr>)))
      | _ \<Rightarrow> (Inl (IntegrityError ''null value violates not-null constraint''), db))"

text \<open>
  \<^verbatim>\<open>book_trial(trial, db, current_user)\<close>, the handler of \<^verbatim>\<open>POST /trials\<close>; \<open>now\<close> is the
  clock reading an INSERT would use. The keyword arguments of the constructor call are
  evaluated before the call, \<^verbatim>\<open>trial.scheduled_at\<close> among them.
\<close>

definition trials_book_trial ::
  "TrialBookingCreate \<Rightarrow> Session \<Rightarrow> User \<Rightarrow> datetime \<Rightarrow> (error + TrialBooking) \<times> Session" where
  "trials_book_trial trial db current_user now =
     (case crud_get_gym db (tbc_gym_id trial) of
        None \<Rightarrow> (Inl (HTTPException 404 ''Gym not found''), db)
      | Some gym \<Rightarrow>
          (case find (\<lambda>t. tb_gym_id t = tbc_gym_id trial
                          \<and> tb_user_id t = user_id current_user
                          \<and> TrialStatus_value (tb_status t) = ''pending'') (trial_bookings db) of
             Some existing_trial \<Rightarrow>
               (Inl (HTTPException 400 ''You already have a pending trial booking for this gym''), db)
           | None \<Rightarrow>
               (case TrialBookingCreate_getattr trial ''scheduled_at'' of
                  Inl e \<Rightarrow> (Inl e, db)
                | Inr scheduled_at \<Rightarrow>
                    (case TrialBooking_init
                            [(''user_id'', PInt (user_id current_user)),
                             (''gym_id'', PInt (tbc_gym_id trial)),
                             (''scheduled_at'', scheduled_at),
                             (''status'', PStr ''pending'')] of
                       Inl e \<Rightarrow> (Inl e, db)
                     | Inr trial_booking \<Rightarrow> insert_trial_booking trial_booking now db))))"

section \<open>Gyms: app/crud.py and app/routes/gyms.py\<close>

subsection \<open>Update\<close>

text \<open>
  \<^verbatim>\<open>schemas.GymUpdate\<close>: every field is optional. \<^verbatim>\<open>dict(exclude_unset=True)\<close> keeps the
  fields the client sent, so a field is unset (\<open>None\<close>), sent as null (\<open>Some None\<close>) or
  sent with a value.
\<close>

record GymUpdate =
  gu_name :: "string option option"
  gu_address :: "string option option"
  gu_subscription_fee :: "int option option"
  gu_trial_available :: "bool option option"
  gu_description :: "string option option"
  gu_location_lat :: "real option option"
  gu_location_lng :: "real option option"

text \<open>
  The \<^verbatim>\<open>setattr\<close> loop of \<^verbatim>\<open>crud.update_gym\<close> followed by \<^verbatim>\<open>commit\<close>: the UPDATE is
  refused when a column declared \<^verbatim>\<open>nullable=False\<close> is set to null or the fee does not
  fit the 32-bit \<^verbatim>\<open>Integer\<close> column.
\<close>

definition setattrs_Gym :: "GymUpdate \<Rightarrow> Gym \<Rightarrow> error + Gym" where
  "setattrs_Gym u g =
     (if gu_name u = Some None \<or> gu_address u = Some None \<or> gu_subscription_fee u = Some None
      then Inl (IntegrityError ''null value violates not-null constraint'')
      else if (case gu_subscription_fee u of
                 Some (Some f) \<Rightarrow> f < - (2 ^ 31) \<or> 2 ^ 31 \<le> f
               | _ \<Rightarrow> False)
      then Inl (DataError ''integer out of range'')
      else Inr (g\<lparr>gym_name := (case gu_name u of Some (Some v) \<Rightarrow> v | _ \<Rightarrow> gym_name g),
                  gym_address := (case gu_address u of Some (Some v) \<Rightarrow> v | _ \<Rightarrow> gym_address g),
                  gym_subscription_fee :=
                    (case gu_subscription_fee u of Some (Some v) \<Rightarrow> v | _ \<Rightarrow> gym_subscription_fee g),
                  gym_trial_available :=
                    (case gu_trial_available u of Some v \<Rightarrow> v | None \<Rightarrow> gym_trial_available g),
                  gym_description :=
                    (case gu_description u of Some v \<Rightarrow> v | None \<Rightarrow> gym_description g),
                  gym_location_lat :=
                    (case gu_location_lat u of Some v \<Rightarrow> v | None \<Rightarrow> gym_location_lat g),
                  gym_location_lng :=
                    (case gu_location_lng u of Some v \<Rightarrow> v | None \<Rightarrow> gym_location_lng g)\<rparr>))"

definition crud_update_gym :: "Session \<Rightarrow> int \<Rightarrow> GymUpdate \<Rightarrow> (error + Gym option) \<times> Session" where
  "crud_update_gym db gid gym_update =
     (case find (\<lambda>g. gym_id g = gid) (gyms db) of
        None \<Rightarrow> (Inr None, db)
      | Some db_gym \<Rightarrow>
          (case setattrs_Gym gym_update db_gym of
             Inl e \<Rightarrow> (Inl e, db)
           | Inr g' \<Rightarrow>
               (Inr (Some g'),
                db\<lparr>gyms := map (\<lambda>g. if gym_id g = gid then g' else g) (gyms db)\<rparr>)))"

text \<open>\<^verbatim>\<open>update_gym(gym_id, gym_update, db, current_user)\<close>, the handler of \<^verbatim>\<open>PUT /gyms/{gym_id}\<close>.\<close>

definition gyms_update_gym ::
  "int \<Rightarrow> GymUpdate \<Rightarrow> Session \<Rightarrow> User \<Rightarrow> (error + Gym option) \<times> Session" where
  "gyms_update_gym gid gym_update db current_user =
     (case crud_get_gym db gid of
        None \<Rightarrow> (Inl (HTTPException 404 ''Gym not found''), db)
      | Some gym \<Rightarrow>
          if \<not> py_in (PUserRole (user_role current_user)) [PUserRole gym_owner, PUserRole admin]
             \<or> gym_owner_id gym \<noteq> user_id current_user
          then (Inl (HTTPException 403 ''Not authorized to update this gym''), db)
          else crud_update_gym db gid gym_update)"

subsection \<open>Delete\<close>

text \<open>
  The names bound at the top level of app/crud.py: its imports and its functions.
  \<^verbatim>\<open>crud.f\<close> raises \<open>AttributeError\<close> for any other \<open>f\<close>.
\<close>

definition crud_namespace :: "string list" where
  "crud_namespace =
     [''Session'', ''and_'', ''models'', ''schemas'', ''List'', ''Optional'',
      ''get_user_by_email'', ''get_user'', ''create_user'',
      ''create_gym'', ''get_gyms'', ''get_gym'', ''update_gym'', ''list_gyms'',
      ''add_trainer'', ''list_trainers_by_gym'',
      ''create_trial_request'', ''list_trial_requests_for_gym'', ''update_trial_status'']"

text \<open>
  \<^verbatim>\<open>delete_gym(gym_id, db, current_user)\<close>, the handler of \<^verbatim>\<open>DELETE /gyms/{gym_id}\<close>. It
  calls \<^verbatim>\<open>crud.delete_gym(db, gym_id)\<close>. The parameter \<open>deleter\<close> stands for whatever
  that name would be bound to; it is consulted only if the name is bound.
\<close>

definition gyms_delete_gym ::
  "(Session \<Rightarrow> int \<Rightarrow> (error + unit) \<times> Session) \<Rightarrow> int \<Rightarrow> Session \<Rightarrow> User
     \<Rightarrow> (error + string) \<times> Session" where
  "gyms_delete_gym deleter gid db current_user =
     (case crud_get_gym db gid of
        None \<Rightarrow> (Inl (HTTPException 404 ''Gym not found''), db)
      | Some gym \<Rightarrow>
          if \<not> py_in (PUserRole (user_role current_user)) [PUserRole gym_owner, PUserRole admin]
             \<or> gym_owner_id gym \<noteq> user_id current_user
          then (Inl (HTTPException 403 ''Not authorized to delete this gym''), db)
          else if ''delete_gym'' \<notin> set crud_namespace
          then (Inl (AttributeError ''module app.crud has no attribute delete_gym''), db)
          else (case deleter db gid of
                  (Inl e, db') \<Rightarrow> (Inl e, db')
                | (Inr u, db') \<Rightarrow> (Inr ''Gym deleted successfully'', db')))"

subsection \<open>Listing\<close>

text \<open>
  Attribute access on the class \<^verbatim>\<open>models.Gym\<close>: its ten columns (each read from a row as
  a Python value, null as \<open>PNone\<close>) and its three relationships. Any other name raises
  \<open>AttributeError\<close>.
\<close>

definition Gym_class_attrs :: "(string \<times> (Gym \<Rightarrow> pyval)) list" where
  "Gym_class_attrs =
     [(''id'', \<lambda>g. PInt (gym_id g)),
      (''owner_id'', \<lambda>g. PInt (gym_owner_id g)),
      (''name'', \<lambda>g. PStr (gym_name g)),
      (''address'', \<lambda>g. PStr (gym_address g)),
      (''subscription_fee'', \<lambda>g. PInt (gym_subscription_fee g)),
      (''trial_available'', \<lambda>g. case gym_trial_available g of None \<Rightarrow> PNone | Some b \<Rightarrow> PBool b),
      (''description'', \<lambda>g. case gym_description g of None \<Rightarrow> PNone | Some s \<Rightarrow> PStr s),
      (''location_lat'', \<lambda>g. case gym_location_lat g of None \<Rightarrow> PNone | Some r \<Rightarrow> PFloat r),
      (''location_lng'', \<lambda>g. case gym_location_lng g of None \<Rightarrow> PNone | Some r \<Rightarrow> PFloat r),
      (''created_at'', \<lambda>g. case gym_created_at g of None \<Rightarrow> PNone | Some d \<Rightarrow> PDatetime d),
      (''owner'', \<lambda>g. PRelationship),
      (''trainers'', \<lambda>g. PRelationship),
      (''trial_bookings'', \<lambda>g. PRelationship)]"

definition Gym_getattr :: "string \<Rightarrow> error + (Gym \<Rightarrow> pyval)" where
  "Gym_getattr name =
     (case map_of Gym_class_attrs name of
        Some col \<Rightarrow> Inr col
      | None \<Rightarrow> Inl (AttributeError (''type object Gym has no attribute '' @ name)))"

text \<open>
  \<^verbatim>\<open>query.filter(models.Gym.attr <op> value)\<close>: the attribute is looked up when the
  criterion is built; the rows are kept for which the criterion is true. A criterion
  on a null value is not true.
\<close>

definition query_filter ::
  "string \<Rightarrow> (pyval \<Rightarrow> bool) \<Rightarrow> error + Gym list \<Rightarrow> error + Gym list" where
  "query_filter attr crit query =
     (case query of
        Inl e \<Rightarrow> Inl e
      | Inr rows \<Rightarrow>
          (case Gym_getattr attr of
             Inl e \<Rightarrow> Inl e
           | Inr col \<Rightarrow> Inr (filter (\<lambda>g. crit (col g)) rows)))"

definition sql_ge :: "pyval \<Rightarrow> real \<Rightarrow> bool" where
  "sql_ge v x = (case py_num v of Some a \<Rightarrow> x \<le> a | None \<Rightarrow> False)"

definition sql_le :: "pyval \<Rightarrow> real \<Rightarrow> bool" where
  "sql_le v x = (case py_num v of Some a \<Rightarrow> a \<le> x | None \<Rightarrow> False)"

definition sql_eq_bool :: "pyval \<Rightarrow> bool \<Rightarrow> bool" where
  "sql_eq_bool v b = (v = PBool b)"

definition sql_ilike :: "(string \<Rightarrow> string \<Rightarrow> bool) \<Rightarrow> pyval \<Rightarrow> string \<Rightarrow> bool" where
  "sql_ilike ilike v pat = (case v of PStr s \<Rightarrow> ilike s pat | _ \<Rightarrow> False)"

text \<open>
  \<^verbatim>\<open>crud.get_gyms(db, skip, limit, location, min_price, max_price, has_trial)\<close>. The
  database's \<^verbatim>\<open>ILIKE\<close> on strings is the parameter \<open>ilike\<close>. PostgreSQL refuses a
  negative OFFSET or LIMIT.
\<close>

definition crud_get_gyms ::
  "(string \<Rightarrow> string \<Rightarrow> bool) \<Rightarrow> Session \<Rightarrow> int \<Rightarrow> int \<Rightarrow> string option \<Rightarrow> real option
     \<Rightarrow> real option \<Rightarrow> bool option \<Rightarrow> error + Gym list" where
  "crud_get_gyms ilike db skip limit location min_price max_price has_trial =
     (let query = Inr (gyms db);
          query = (case location of
                     None \<Rightarrow> query
                   | Some l \<Rightarrow>
                       if l = [] then query
                       else query_filter ''location''
                              (\<lambda>v. sql_ilike ilike v (''%'' @ l @ ''%'')) query);
          query = (case min_price of
                     None \<Rightarrow> query
                   | Some x \<Rightarrow> query_filter ''subscription_price'' (\<lambda>v. sql_ge v x) query);
          query = (case max_price of
                     None \<Rightarrow> query
                   | Some x \<Rightarrow> query_filter ''subscription_price'' (\<lambda>v. sql_le v x) query);
          query = (case has_trial of
                     None \<Rightarrow> query
                   | Some b \<Rightarrow> query_filter ''has_trial'' (\<lambda>v. sql_eq_bool v b) query)
      in case query of
           Inl e \<Rightarrow> Inl e
         | Inr rows \<Rightarrow>
             if skip < 0 \<or> limit < 0
             then Inl (DataError ''OFFSET and LIMIT must not be negative'')
             else Inr (take (nat limit) (drop (nat skip) rows)))"

text \<open>\<^verbatim>\<open>list_gyms\<close>, the handler of \<^verbatim>\<open>GET /gyms\<close>, passes its parameters on.\<close>

definition gyms_list_gyms ::
  "(string \<Rightarrow> string \<Rightarrow> bool) \<Rightarrow> Session \<Rightarrow> int \<Rightarrow> int \<Rightarrow> string option \<Rightarrow> real option
     \<Rightarrow> real option \<Rightarrow> bool option \<Rightarrow> error + Gym list" where
  "gyms_list_gyms ilike db skip limit location min_price max_price has_trial =
     crud_get_gyms ilike db skip limit location min_price max_price has_trial"

section \<open>A small store for concrete runs\<close>

text \<open>
  Three users (the owner of the one gym, an administrator who owns no gym, and a seeker),
  the gym, and a parameter for the bookings.
\<close>

definition owner1 :: User where
  "owner1 = \<lparr>user_id = 1, user_name = ''Olga'', user_email = ''olga@example.org'',
              user_hashed_password = ''h1'', user_role = gym_owner\<rparr>"

definition admin2 :: User where
  "admin2 = \<lparr>user_id = 2, user_name = ''Adam'', user_email = ''adam@example.org'',
              user_hashed_password = ''h2'', user_role = admin\<rparr>"

definition seeker3 :: User where
  "seeker3 = \<lparr>user_id = 3, user_name = ''Sam'', user_email = ''sam@example.org'',
               user_hashed_password = ''h3'', user_role = seeker\<rparr>"

definition gym1 :: Gym where
  "gym1 = \<lparr>gym_id = 1, gym_owner_id = 1, gym_name = ''Iron'', gym_address = ''1 Main St'',
            gym_subscription_fee = 80, gym_trial_available = Some True, gym_description = None,
            gym_location_lat = None, gym_location_lng = None, gym_created_at = Some 100\<rparr>"

definition booking1 :: "TrialStatus \<Rightarrow> TrialBooking" where
  "booking1 st = \<lparr>tb_id = 1, tb_user_id = 3, tb_gym_id = 1, tb_status = st,
                  tb_created_at = Some 200\<rparr>"

definition booking2 :: TrialBooking where
  "booking2 = \<lparr>tb_id = 2, tb_user_id = 3, tb_gym_id = 1, tb_status = rejected,
               tb_created_at = Some 300\<rparr>"

definition store :: "TrialBooking list \<Rightarrow> Session" where
  "store bs = \<lparr>users = [owner1, admin2, seeker3], gyms = [gym1], trainers = [],
               trial_bookings = bs, trial_bookings_id_seq = 2\<rparr>"

lemmas fixtures = owner1_def admin2_def seeker3_def gym1_def booking1_def booking2_def store_def

section \<open>Basic facts\<close>

lemma py_eq_role_str: "py_eq (PUserRole r) (PStr s) = False"
  by (simp add: py_eq_def)

lemma py_in_roles:
  "py_in (PUserRole r) [PUserRole gym_owner, PUserRole admin] = (r = gym_owner \<or> r = admin)"
  by (auto simp add: py_in_def py_eq_def)

lemma py_in_allowed:
  "py_in (PStr s) allowed_statuses = (s = ''pending'' \<or> s = ''accepted'' \<or> s = ''rejected'')"
  by (auto simp add: py_in_def py_eq_def allowed_statuses_def)

lemma TrialStatus_of_name_Some_iff:
  "TrialStatus_of_name s = Some st \<longleftrightarrow> TrialStatus_value st = s"
  by (cases st) (auto simp add: TrialStatus_of_name_def)

lemma TrialStatus_of_name_None_iff:
  "TrialStatus_of_name s = None \<longleftrightarrow> \<not> (s = ''pending'' \<or> s = ''accepted'' \<or> s = ''rejected'')"
  by (auto simp add: TrialStatus_of_name_def)

lemma TrialStatus_value_pending: "TrialStatus_value st = ''pending'' \<longleftrightarrow> st = pending"
  by (cases st) simp_all

lemma delete_gym_unbound: "''delete_gym'' \<notin> set crud_namespace"
  by (simp add: crud_namespace_def)

lemma Gym_getattr_subscription_price:
  "Gym_getattr ''subscription_price'' =
     Inl (AttributeError ''type object Gym has no attribute subscription_price'')"
  by (simp add: Gym_getattr_def Gym_class_attrs_def)

lemma Gym_getattr_location:
  "Gym_getattr ''location'' = Inl (AttributeError ''type object Gym has no attribute location'')"
  by (simp add: Gym_getattr_def Gym_class_attrs_def)

lemma Gym_getattr_has_trial:
  "Gym_getattr ''has_trial'' = Inl (AttributeError ''type object Gym has no attribute has_trial'')"
  by (simp add: Gym_getattr_def Gym_class_attrs_def)

lemma scheduled_at_missing:
  "TrialBookingCreate_getattr trial ''scheduled_at'' =
     Inl (AttributeError ''TrialBookingCreate object has no attribute scheduled_at'')"
  by (simp add: TrialBookingCreate_getattr_def)

text \<open>The duplicate query of \<open>book_trial\<close> finds a row exactly when a pending one is there.\<close>

lemma pending_query_None:
  "find (\<lambda>t. tb_gym_id t = gid \<and> tb_user_id t = uid
              \<and> TrialStatus_value (tb_status t) = ''pending'') bs = None
   \<longleftrightarrow> (\<forall>t \<in> set bs. \<not> (tb_gym_id t = gid \<and> tb_user_id t = uid \<and> tb_status t = pending))"
  by (auto simp add: find_None_iff TrialStatus_value_pending)

section \<open>Creating a booking\<close>

text \<open>
  C1. The claim: for every authenticated requester and every existing gym for which the
  requester has no pending booking, \<open>book_trial\<close> succeeds and stores one new pending
  booking with the requester's id, the gym id, the supplied \<open>scheduled_at\<close> and a
  creation time. The handler does not: on every such input it raises \<open>AttributeError\<close>
  when it reads \<^verbatim>\<open>trial.scheduled_at\<close>, a field that \<open>TrialBookingCreate\<close> does not
  declare, and the store is left as it was.
\<close>

theorem book_trial_raises:
  assumes "crud_get_gym db (tbc_gym_id trial) = Some gym"
    and "\<forall>t \<in> set (trial_bookings db).
           \<not> (tb_gym_id t = tbc_gym_id trial \<and> tb_user_id t = user_id current_user
              \<and> tb_status t = pending)"
  shows "trials_book_trial trial db current_user now =
           (Inl (AttributeError ''TrialBookingCreate object has no attribute scheduled_at''), db)"
proof -
  from assms(2)
  have "find (\<lambda>t. tb_gym_id t = tbc_gym_id trial \<and> tb_user_id t = user_id current_user
                  \<and> TrialStatus_value (tb_status t) = ''pending'') (trial_bookings db) = None"
    by (simp only: pending_query_None)
  with assms(1) show ?thesis
    by (simp add: trials_book_trial_def scheduled_at_missing)
qed

theorem book_trial_raises_witness:
  "crud_get_gym (store []) 1 = Some gym1
   \<and> trials_book_trial \<lparr>tbc_gym_id = 1\<rparr> (store []) seeker3 1000 =
       (Inl (AttributeError ''TrialBookingCreate object has no attribute scheduled_at''), store [])
   \<and> http_status_of (fst (trials_book_trial \<lparr>tbc_gym_id = 1\<rparr> (store []) seeker3 1000)) = Some 500"
proof -
  have g: "crud_get_gym (store []) (tbc_gym_id \<lparr>tbc_gym_id = 1\<rparr>) = Some gym1"
    by (simp add: crud_get_gym_def fixtures)
  have n: "\<forall>t \<in> set (trial_bookings (store [])).
           \<not> (tb_gym_id t = tbc_gym_id \<lparr>tbc_gym_id = 1\<rparr> \<and> tb_user_id t = user_id seeker3
              \<and> tb_status t = pending)"
    by (simp add: store_def)
  from book_trial_raises [OF g n, of 1000] g show ?thesis by simp
qed

text \<open>
  C4, as the handler has it. For every requester and every existing gym: when a booking of
  the requester for that gym is pending, \<open>book_trial\<close> raises the \<open>HTTPException\<close>
  with status 400 (Bad Request) and the detail "You already have a pending trial booking
  for this gym", and the store is unchanged, so no booking is created.
\<close>

theorem book_trial_duplicate_pending:
  assumes "crud_get_gym db (tbc_gym_id trial) = Some gym"
    and "b \<in> set (trial_bookings db)"
    and "tb_gym_id b = tbc_gym_id trial"
    and "tb_user_id b = user_id current_user"
    and "tb_status b = pending"
  shows "trials_book_trial trial db current_user now =
           (Inl (HTTPException 400 ''You already have a pending trial booking for this gym''), db)"
proof -
  have "find (\<lambda>t. tb_gym_id t = tbc_gym_id trial \<and> tb_user_id t = user_id current_user
                  \<and> TrialStatus_value (tb_status t) = ''pending'') (trial_bookings db) \<noteq> None"
    using assms(2-5) by (auto simp only: pending_query_None)
  then obtain e where
    "find (\<lambda>t. tb_gym_id t = tbc_gym_id trial \<and> tb_user_id t = user_id current_user
                  \<and> TrialStatus_value (tb_status t) = ''pending'') (trial_bookings db) = Some e"
    by blast
  with assms(1) show ?thesis
    by (simp add: trials_book_trial_def)
qed

theorem book_trial_duplicate_pending_witness:
  "booking1 pending \<in> set (trial_bookings (store [booking1 pending]))
   \<and> trials_book_trial \<lparr>tbc_gym_id = 1\<rparr> (store [booking1 pending]) seeker3 1000 =
       (Inl (HTTPException 400 ''You already have a pending trial booking for this gym''),
        store [booking1 pending])"
proof -
  have g: "crud_get_gym (store [booking1 pending]) (tbc_gym_id \<lparr>tbc_gym_id = 1\<rparr>) = Some gym1"
    by (simp add: crud_get_gym_def fixtures)
  have m: "booking1 pending \<in> set (trial_bookings (store [booking1 pending]))"
    by (simp add: store_def)
  have 1: "tb_gym_id (booking1 pending) = tbc_gym_id \<lparr>tbc_gym_id = 1\<rparr>"
    by (simp add: booking1_def)
  have 2: "tb_user_id (booking1 pending) = user_id seeker3"
    by (simp add: booking1_def seeker3_def)
  have 3: "tb_status (booking1 pending) = pending"
    by (simp add: booking1_def)
  from book_trial_duplicate_pending [OF g m 1 2 3, of 1000] m show ?thesis by simp
qed

text \<open>
  C4 as claimed asks for status 409 (Conflict). At the seeker's second request for gym 1
  the handler answers 400.
\<close>

theorem book_trial_duplicate_is_400_not_409:
  "trials_book_trial \<lparr>tbc_gym_id = 1\<rparr> (store [booking1 pending]) seeker3 1000 =
       (Inl (HTTPException 400 ''You already have a pending trial booking for this gym''),
        store [booking1 pending])
   \<and> http_status_of (fst (trials_book_trial \<lparr>tbc_gym_id = 1\<rparr> (store [booking1 pending]) seeker3 1000))
       \<noteq> Some 409"
  by (simp add: trials_book_trial_def crud_get_gym_def fixtures)

text \<open>
  C9. \<open>book_trial\<close> never reads the caller's role: replacing the role of the caller by
  any other leaves the outcome and the store the same, for every caller (the owner of
  the target gym included), and the handler never answers 403 (Forbidden).
\<close>

theorem book_trial_ignores_role:
  "trials_book_trial trial db (current_user\<lparr>user_role := r\<rparr>) now =
     trials_book_trial trial db current_user now
   \<and> http_status_of (fst (trials_book_trial trial db current_user now)) \<noteq> Some 403"
  by (simp add: trials_book_trial_def scheduled_at_missing split: option.split)

theorem book_trial_ignores_role_witness:
  "trials_book_trial \<lparr>tbc_gym_id = 1\<rparr> (store []) (owner1\<lparr>user_role := admin\<rparr>) 1000 =
     trials_book_trial \<lparr>tbc_gym_id = 1\<rparr> (store []) owner1 1000
   \<and> http_status_of (fst (trials_book_trial \<lparr>tbc_gym_id = 1\<rparr> (store []) owner1 1000)) \<noteq> Some 403"
  using book_trial_ignores_role [where trial = "\<lparr>tbc_gym_id = 1\<rparr>" and db = "store []"
      and current_user = owner1 and r = admin and now = 1000]
  by simp

section \<open>Authorization of gym update and delete\<close>

text \<open>
  C2. The claim: update and delete of a gym are permitted exactly when the caller's role
  is \<open>gym_owner\<close> or \<open>admin\<close> and the caller is an admin or the owner of the gym; an
  admin may change a gym it does not own. Both handlers test
  \<^verbatim>\<open>role not in [gym_owner, admin] or gym.owner_id != current_user.id\<close>, so a caller
  with role \<open>admin\<close> who is not the owner of the gym is answered 403 by both, and the
  store is unchanged.
\<close>

theorem gym_mutation_denies_admin_non_owner:
  assumes "crud_get_gym db gid = Some gym"
    and "user_role current_user = admin"
    and "gym_owner_id gym \<noteq> user_id current_user"
  shows "gyms_update_gym gid gym_update db current_user =
           (Inl (HTTPException 403 ''Not authorized to update this gym''), db)
       \<and> gyms_delete_gym deleter gid db current_user =
           (Inl (HTTPException 403 ''Not authorized to delete this gym''), db)"
  using assms by (simp add: gyms_update_gym_def gyms_delete_gym_def)

theorem gym_mutation_denies_admin_non_owner_witness:
  "crud_get_gym (store []) 1 = Some gym1 \<and> user_role admin2 = admin
   \<and> gym_owner_id gym1 \<noteq> user_id admin2
   \<and> http_status_of (fst (gyms_update_gym 1
        \<lparr>gu_name = Some (Some ''Steel''), gu_address = None, gu_subscription_fee = None,
         gu_trial_available = None, gu_description = None, gu_location_lat = None,
         gu_location_lng = None\<rparr> (store []) admin2)) = Some 403
   \<and> http_status_of (fst (gyms_delete_gym (\<lambda>db n. (Inr (), db)) 1 (store []) admin2)) = Some 403"
proof -
  have g: "crud_get_gym (store []) 1 = Some gym1"
    by (simp add: crud_get_gym_def fixtures)
  have r: "user_role admin2 = admin" by (simp add: admin2_def)
  have o: "gym_owner_id gym1 \<noteq> user_id admin2" by (simp add: admin2_def gym1_def)
  from gym_mutation_denies_admin_non_owner [OF g r o] g r o show ?thesis by simp
qed

section \<open>Authorization of the status update\<close>

text \<open>
  C3. The claim: \<open>update_trial_status\<close> is permitted exactly when the caller owns the
  booking's gym or has role \<open>admin\<close>. The handler tests
  \<^verbatim>\<open>trial.gym.owner_id != current_user.id and current_user.role != "admin"\<close>; the role is
  a member of the plain enumeration \<open>UserRole\<close> and differs from every string, so every
  caller who is not the owner of the gym is answered 403, an admin included.
\<close>

theorem trial_status_update_denies_non_owner:
  assumes "find (\<lambda>t. tb_id t = trial_id) (trial_bookings db) = Some trial"
    and "TrialBooking_gym db trial = Some gym"
    and "gym_owner_id gym \<noteq> user_id current_user"
  shows "trials_update_trial_status trial_id request db current_user =
           (Inl (HTTPException 403 ''Not authorized to update this trial booking''), db)"
  using assms by (simp add: trials_update_trial_status_def py_eq_role_str)

theorem trial_status_update_denies_non_owner_witness:
  "user_role admin2 = admin
   \<and> trials_update_trial_status 1 \<lparr>status_update = ''accepted''\<rparr> (store [booking1 pending]) admin2 =
       (Inl (HTTPException 403 ''Not authorized to update this trial booking''),
        store [booking1 pending])"
proof -
  have f: "find (\<lambda>t. tb_id t = 1) (trial_bookings (store [booking1 pending])) = Some (booking1 pending)"
    by (simp add: fixtures)
  have g: "TrialBooking_gym (store [booking1 pending]) (booking1 pending) = Some gym1"
    by (simp add: TrialBooking_gym_def fixtures)
  have o: "gym_owner_id gym1 \<noteq> user_id admin2" by (simp add: admin2_def gym1_def)
  from trial_status_update_denies_non_owner [OF f g o] show ?thesis by (simp add: admin2_def)
qed

section \<open>Updating the status of a booking\<close>

text \<open>The row read back by primary key after the UPDATE, and the successful runs of the handler.\<close>

lemma find_after_set_status:
  "find (\<lambda>t. tb_id t = k) bs = Some trial \<Longrightarrow>
   find (\<lambda>t. tb_id t = k) (map (\<lambda>t. if tb_id t = k then t\<lparr>tb_status := st\<rparr> else t) bs)
     = Some (trial\<lparr>tb_status := st\<rparr>)"
  by (induction bs) (auto split: if_splits)

lemma update_trial_status_ok:
  assumes "find (\<lambda>t. tb_id t = trial_id) (trial_bookings db) = Some trial"
    and "TrialBooking_gym db trial = Some gym"
    and "gym_owner_id gym = user_id current_user"
    and "TrialStatus_value st = status_update request"
  shows "trials_update_trial_status trial_id request db current_user =
           (Inr (trial\<lparr>tb_status := st\<rparr>), set_trial_status trial_id st db)"
proof -
  from assms(4) have n: "TrialStatus_of_name (status_update request) = Some st"
    by (simp add: TrialStatus_of_name_Some_iff)
  from assms(4) have a: "py_in (PStr (status_update request)) allowed_statuses"
    by (cases st) (auto simp add: py_in_allowed)
  from assms(1-3) n a show ?thesis
    by (simp add: trials_update_trial_status_def)
qed

lemma update_trial_status_Inr:
  assumes "trials_update_trial_status trial_id request db current_user = (Inr t', db')"
  obtains trial st where "find (\<lambda>t. tb_id t = trial_id) (trial_bookings db) = Some trial"
    and "t' = trial\<lparr>tb_status := st\<rparr>" and "db' = set_trial_status trial_id st db"
  using assms
  by (auto simp add: trials_update_trial_status_def split: option.splits if_splits)

text \<open>\<^verbatim>\<open>crud.update_trial_status\<close> makes the same change, whatever the current status.\<close>

lemma crud_update_trial_status_ok:
  assumes "find (\<lambda>t. tb_id t = trial_id) (trial_bookings db) = Some trial"
    and "TrialStatus_value st = status"
  shows "crud_update_trial_status db trial_id status =
           (Inr (Some (trial\<lparr>tb_status := st\<rparr>)), set_trial_status trial_id st db)"
proof -
  from assms(2) have "TrialStatus_of_name status = Some st"
    by (simp add: TrialStatus_of_name_Some_iff)
  with assms(1) show ?thesis
    by (simp add: crud_update_trial_status_def)
qed

text \<open>
  C5, as the handler has it. For every booking whose status is \<open>accepted\<close> or
  \<open>rejected\<close>: a call of \<open>update_trial_status\<close> by the owner of the booking's gym with
  one of the three status names succeeds, returns the booking with the new status, and
  the booking read back from the store has the new status. The handler does not look at
  the current status.
\<close>

theorem update_trial_status_from_terminal:
  assumes "find (\<lambda>t. tb_id t = trial_id) (trial_bookings db) = Some trial"
    and "tb_status trial = accepted \<or> tb_status trial = rejected"
    and "TrialBooking_gym db trial = Some gym"
    and "gym_owner_id gym = user_id current_user"
    and "TrialStatus_value st = status_update request"
  shows "trials_update_trial_status trial_id request db current_user =
           (Inr (trial\<lparr>tb_status := st\<rparr>), set_trial_status trial_id st db)
       \<and> find (\<lambda>t. tb_id t = trial_id) (trial_bookings (set_trial_status trial_id st db))
           = Some (trial\<lparr>tb_status := st\<rparr>)"
  using update_trial_status_ok [OF assms(1) assms(3) assms(4) assms(5)]
    find_after_set_status [OF assms(1)]
  by (simp add: set_trial_status_def)

theorem update_trial_status_from_terminal_witness:
  "tb_status (booking1 accepted) = accepted
   \<and> trials_update_trial_status 1 \<lparr>status_update = ''pending''\<rparr> (store [booking1 accepted]) owner1 =
       (Inr (booking1 pending), store [booking1 pending])
   \<and> find (\<lambda>t. tb_id t = 1) (trial_bookings (store [booking1 pending])) = Some (booking1 pending)"
proof -
  have f: "find (\<lambda>t. tb_id t = 1) (trial_bookings (store [booking1 accepted])) = Some (booking1 accepted)"
    by (simp add: fixtures)
  have s: "tb_status (booking1 accepted) = accepted \<or> tb_status (booking1 accepted) = rejected"
    by (simp add: booking1_def)
  have g: "TrialBooking_gym (store [booking1 accepted]) (booking1 accepted) = Some gym1"
    by (simp add: TrialBooking_gym_def fixtures)
  have o: "gym_owner_id gym1 = user_id owner1" by (simp add: owner1_def gym1_def)
  have v: "TrialStatus_value pending = status_update \<lparr>status_update = ''pending''\<rparr>" by simp
  have e: "set_trial_status 1 pending (store [booking1 accepted]) = store [booking1 pending]"
    by (simp add: set_trial_status_def fixtures)
  have b: "(booking1 accepted)\<lparr>tb_status := pending\<rparr> = booking1 pending"
    by (simp add: booking1_def)
  from update_trial_status_from_terminal [OF f s g o v] e b show ?thesis
    by (simp add: booking1_def)
qed

text \<open>
  C5 as claimed says that an update of a booking in a terminal state fails and leaves the
  status as it is. The owner's update of the accepted booking 1 to \<open>rejected\<close> succeeds
  and the stored status changes.
\<close>

theorem terminal_booking_is_updated:
  "trials_update_trial_status 1 \<lparr>status_update = ''rejected''\<rparr> (store [booking1 accepted]) owner1 =
     (Inr (booking1 rejected), store [booking1 rejected])
   \<and> tb_status (booking1 accepted) = accepted
   \<and> tb_status (booking1 rejected) \<noteq> tb_status (booking1 accepted)"
  by (simp add: trials_update_trial_status_def TrialBooking_gym_def py_in_allowed
        TrialStatus_of_name_def set_trial_status_def fixtures)

text \<open>
  The validity test of the handler, for the caller it lets through: when the owner of the
  booking's gym sends a \<open>status_update\<close> outside pending, accepted, rejected, the
  handler raises the 400 exception and the store is unchanged; when the owner sends one
  of the three, the handler returns the booking.
\<close>

lemma update_trial_status_validity_owner:
  assumes "find (\<lambda>t. tb_id t = trial_id) (trial_bookings db) = Some trial"
    and "TrialBooking_gym db trial = Some gym"
    and "gym_owner_id gym = user_id current_user"
  shows "(status_update request \<notin> {''pending'', ''accepted'', ''rejected''} \<longrightarrow>
            trials_update_trial_status trial_id request db current_user =
              (Inl (HTTPException 400 ''Status must be one of ''), db))
       \<and> (status_update request \<in> {''pending'', ''accepted'', ''rejected''} \<longrightarrow>
            (\<exists>t. fst (trials_update_trial_status trial_id request db current_user) = Inr t))"
proof (intro conjI impI)
  assume "status_update request \<notin> {''pending'', ''accepted'', ''rejected''}"
  then have "\<not> py_in (PStr (status_update request)) allowed_statuses"
    by (simp add: py_in_allowed)
  with assms
  show "trials_update_trial_status trial_id request db current_user =
          (Inl (HTTPException 400 ''Status must be one of ''), db)"
    by (simp add: trials_update_trial_status_def)
next
  assume "status_update request \<in> {''pending'', ''accepted'', ''rejected''}"
  then obtain st where "TrialStatus_value st = status_update request"
    by (metis TrialStatus_value.simps insert_iff empty_iff)
  from update_trial_status_ok [OF assms this]
  show "\<exists>t. fst (trials_update_trial_status trial_id request db current_user) = Inr t"
    by simp
qed

text \<open>
  C6. The claim: for every authorized caller (the owner of the booking's gym or an
  admin) and every existing booking, a \<open>status_update\<close> outside pending, accepted,
  rejected is answered BadRequest, and one inside the set passes the validity test. For
  a caller with role \<open>admin\<close> who does not own the gym the handler does neither:
  whatever the \<open>status_update\<close>, it raises the 403 exception of the authorization test
  before the validity test is reached, so the answer is never 400, no booking is
  returned, and the store is unchanged.
\<close>

theorem update_trial_status_validity_admin:
  assumes "find (\<lambda>t. tb_id t = trial_id) (trial_bookings db) = Some trial"
    and "TrialBooking_gym db trial = Some gym"
    and "user_role current_user = admin"
    and "gym_owner_id gym \<noteq> user_id current_user"
  shows "http_status_of (fst (trials_update_trial_status trial_id request db current_user)) = Some 403
       \<and> http_status_of (fst (trials_update_trial_status trial_id request db current_user)) \<noteq> Some 400
       \<and> snd (trials_update_trial_status trial_id request db current_user) = db
       \<and> (\<forall>t. fst (trials_update_trial_status trial_id request db current_user) \<noteq> Inr t)"
  using assms by (simp add: trials_update_trial_status_def py_eq_role_str)

theorem update_trial_status_validity_admin_witness:
  "user_role admin2 = admin
   \<and> gym_owner_id gym1 \<noteq> user_id admin2
   \<and> status_update \<lparr>status_update = ''approved''\<rparr> \<notin> {''pending'', ''accepted'', ''rejected''}
   \<and> http_status_of (fst (trials_update_trial_status 1 \<lparr>status_update = ''approved''\<rparr>
        (store [booking1 pending]) admin2)) = Some 403
   \<and> status_update \<lparr>status_update = ''accepted''\<rparr> \<in> {''pending'', ''accepted'', ''rejected''}
   \<and> fst (trials_update_trial_status 1 \<lparr>status_update = ''accepted''\<rparr>
        (store [booking1 pending]) admin2) \<noteq> Inr (booking1 accepted)"
proof -
  have f: "find (\<lambda>t. tb_id t = 1) (trial_bookings (store [booking1 pending])) = Some (booking1 pending)"
    by (simp add: fixtures)
  have g: "TrialBooking_gym (store [booking1 pending]) (booking1 pending) = Some gym1"
    by (simp add: TrialBooking_gym_def fixtures)
  have r: "user_role admin2 = admin" by (simp add: admin2_def)
  have o: "gym_owner_id gym1 \<noteq> user_id admin2" by (simp add: admin2_def gym1_def)
  from update_trial_status_validity_admin [OF f g r o, of "\<lparr>status_update = ''approved''\<rparr>"]
    update_trial_status_validity_admin [OF f g r o, of "\<lparr>status_update = ''accepted''\<rparr>"]
    r o
  show ?thesis by simp
qed

text \<open>
  C10. When \<open>update_trial_status\<close> returns a booking, the tables of users, gyms and
  trainers and the sequence are as before; the table of bookings has the same length,
  every row keeps its \<open>id\<close>, \<open>user_id\<close>, \<open>gym_id\<close> and \<open>created_at\<close>, every row
  with another primary key is unchanged, and the returned booking agrees with the stored
  one in all fields but \<open>status\<close>.
\<close>

theorem update_trial_status_frame:
  assumes "trials_update_trial_status trial_id request db current_user = (Inr t', db')"
  shows "users db' = users db \<and> gyms db' = gyms db \<and> trainers db' = trainers db
       \<and> trial_bookings_id_seq db' = trial_bookings_id_seq db
       \<and> length (trial_bookings db') = length (trial_bookings db)
       \<and> (\<forall>i < length (trial_bookings db).
            tb_id (trial_bookings db' ! i) = tb_id (trial_bookings db ! i)
            \<and> tb_user_id (trial_bookings db' ! i) = tb_user_id (trial_bookings db ! i)
            \<and> tb_gym_id (trial_bookings db' ! i) = tb_gym_id (trial_bookings db ! i)
            \<and> tb_created_at (trial_bookings db' ! i) = tb_created_at (trial_bookings db ! i)
            \<and> (tb_id (trial_bookings db ! i) \<noteq> trial_id \<longrightarrow>
                 trial_bookings db' ! i = trial_bookings db ! i))
       \<and> (\<exists>t. find (\<lambda>t. tb_id t = trial_id) (trial_bookings db) = Some t
              \<and> tb_id t' = tb_id t \<and> tb_user_id t' = tb_user_id t
              \<and> tb_gym_id t' = tb_gym_id t \<and> tb_created_at t' = tb_created_at t)"
proof -
  from assms obtain trial st where
    f: "find (\<lambda>t. tb_id t = trial_id) (trial_bookings db) = Some trial"
    and t': "t' = trial\<lparr>tb_status := st\<rparr>"
    and db': "db' = set_trial_status trial_id st db"
    by (rule update_trial_status_Inr)
  have tables: "users db' = users db \<and> gyms db' = gyms db \<and> trainers db' = trainers db
       \<and> trial_bookings_id_seq db' = trial_bookings_id_seq db
       \<and> length (trial_bookings db') = length (trial_bookings db)"
    by (simp add: db' set_trial_status_def)
  have rows: "\<forall>i < length (trial_bookings db).
            tb_id (trial_bookings db' ! i) = tb_id (trial_bookings db ! i)
            \<and> tb_user_id (trial_bookings db' ! i) = tb_user_id (trial_bookings db ! i)
            \<and> tb_gym_id (trial_bookings db' ! i) = tb_gym_id (trial_bookings db ! i)
            \<and> tb_created_at (trial_bookings db' ! i) = tb_created_at (trial_bookings db ! i)
            \<and> (tb_id (trial_bookings db ! i) \<noteq> trial_id \<longrightarrow>
                 trial_bookings db' ! i = trial_bookings db ! i)"
    by (simp add: db' set_trial_status_def)
  have ret: "\<exists>t. find (\<lambda>t. tb_id t = trial_id) (trial_bookings db) = Some t
              \<and> tb_id t' = tb_id t \<and> tb_user_id t' = tb_user_id t
              \<and> tb_gym_id t' = tb_gym_id t \<and> tb_created_at t' = tb_created_at t"
    using f by (simp add: t')
  from tables rows ret show ?thesis by blast
qed

theorem update_trial_status_frame_witness:
  "trials_update_trial_status 1 \<lparr>status_update = ''accepted''\<rparr>
       (store [booking1 pending, booking2]) owner1 =
     (Inr (booking1 accepted), store [booking1 accepted, booking2])
   \<and> users (store [booking1 accepted, booking2]) = users (store [booking1 pending, booking2])
   \<and> gyms (store [booking1 accepted, booking2]) = gyms (store [booking1 pending, booking2])
   \<and> trial_bookings (store [booking1 accepted, booking2]) ! 1
       = trial_bookings (store [booking1 pending, booking2]) ! 1
   \<and> tb_created_at (booking1 accepted) = tb_created_at (booking1 pending)"
proof -
  have e: "trials_update_trial_status 1 \<lparr>status_update = ''accepted''\<rparr>
             (store [booking1 pending, booking2]) owner1 =
           (Inr (booking1 accepted), store [booking1 accepted, booking2])"
    by (simp add: trials_update_trial_status_def TrialBooking_gym_def py_in_allowed
          TrialStatus_of_name_def set_trial_status_def fixtures)
  have l: "(1::nat) < length (trial_bookings (store [booking1 pending, booking2]))"
    by (simp add: store_def)
  have i: "tb_id (trial_bookings (store [booking1 pending, booking2]) ! 1) \<noteq> 1"
    by (simp add: store_def booking2_def)
  have b: "find (\<lambda>t. tb_id t = 1) (trial_bookings (store [booking1 pending, booking2]))
             = Some (booking1 pending)"
    by (simp add: store_def booking1_def)
  from update_trial_status_frame [OF e] l i b e show ?thesis
    by auto
qed

section \<open>Listing gyms\<close>

lemma query_filter_unknown:
  "Gym_getattr attr = Inl e \<Longrightarrow> query_filter attr crit (Inr rows) = Inl e"
  by (simp add: query_filter_def)

lemma query_filter_Inl: "query_filter attr crit (Inl e) = Inl e"
  by (simp add: query_filter_def)

text \<open>
  C7. The claim: the listing returns the gyms that satisfy the supplied filters, and with
  \<open>min_price = 50\<close> and \<open>max_price = 100\<close> the gyms whose fee lies in that range, for
  any pagination window. \<open>get_gyms\<close> builds the price criteria from
  \<^verbatim>\<open>models.Gym.subscription_price\<close>, which the class does not have (the column is
  \<open>subscription_fee\<close>): for every store and every window the call raises
  \<open>AttributeError\<close> and returns no listing.
\<close>

theorem list_gyms_price_range_raises:
  "gyms_list_gyms ilike db skip limit None (Some 50) (Some 100) None =
     Inl (AttributeError ''type object Gym has no attribute subscription_price'')
   \<and> crud_get_gyms ilike db skip limit None (Some 50) (Some 100) None =
     Inl (AttributeError ''type object Gym has no attribute subscription_price'')"
  by (simp add: gyms_list_gyms_def crud_get_gyms_def query_filter_Inl
        query_filter_unknown [OF Gym_getattr_subscription_price])

theorem list_gyms_price_range_raises_witness:
  "real_of_int (gym_subscription_fee gym1) \<in> {50..100}
   \<and> http_status_of (gyms_list_gyms (\<lambda>s p. True) (store []) 0 20 None (Some 50) (Some 100) None) = Some 500"
  using list_gyms_price_range_raises [of "\<lambda>s p. True" "store []" 0 20]
  by (simp add: gym1_def)

text \<open>
  The same holds for each of the four filters, since \<open>location\<close> and \<open>has_trial\<close> are
  not attributes of the class either; without filters the listing is the window of the
  table.
\<close>

lemma list_gyms_any_filter_raises:
  assumes "(location \<noteq> None \<and> location \<noteq> Some []) \<or> min_price \<noteq> None \<or> max_price \<noteq> None
           \<or> has_trial \<noteq> None"
  shows "\<exists>e. crud_get_gyms ilike db skip limit location min_price max_price has_trial =
           Inl (AttributeError e)"
  using assms
  by (cases location; cases min_price; cases max_price; cases has_trial)
     (simp_all add: crud_get_gyms_def Let_def query_filter_Inl
        query_filter_unknown [OF Gym_getattr_subscription_price]
        query_filter_unknown [OF Gym_getattr_location]
        query_filter_unknown [OF Gym_getattr_has_trial])

lemma list_gyms_no_filter:
  "0 \<le> skip \<Longrightarrow> 0 \<le> limit \<Longrightarrow>
   crud_get_gyms ilike db skip limit None None None None = Inr (take (nat limit) (drop (nat skip) (gyms db)))"
  by (simp add: crud_get_gyms_def)

section \<open>Deleting a gym\<close>

text \<open>
  C8. \<open>delete_gym\<close> never succeeds and never changes the store: a caller that passes the
  authorization test on an existing gym gets the \<open>AttributeError\<close> of the unbound name
  \<^verbatim>\<open>crud.delete_gym\<close>, whatever a function of that name would do, and every other call
  ends in 404 or 403.
\<close>

theorem delete_gym_never_deletes:
  "(crud_get_gym db gid = Some gym
      \<and> py_in (PUserRole (user_role current_user)) [PUserRole gym_owner, PUserRole admin]
      \<and> gym_owner_id gym = user_id current_user
     \<longrightarrow> gyms_delete_gym deleter gid db current_user =
           (Inl (AttributeError ''module app.crud has no attribute delete_gym''), db))
   \<and> snd (gyms_delete_gym deleter gid db current_user) = db
   \<and> (\<forall>m. fst (gyms_delete_gym deleter gid db current_user) \<noteq> Inr m)"
  by (simp add: gyms_delete_gym_def delete_gym_unbound split: option.split)

theorem delete_gym_never_deletes_witness:
  "crud_get_gym (store []) 1 = Some gym1
   \<and> py_in (PUserRole (user_role owner1)) [PUserRole gym_owner, PUserRole admin]
   \<and> gym_owner_id gym1 = user_id owner1
   \<and> gyms_delete_gym (\<lambda>db n. (Inr (), db\<lparr>gyms := filter (\<lambda>g. gym_id g \<noteq> n) (gyms db)\<rparr>))
        1 (store []) owner1 =
       (Inl (AttributeError ''module app.crud has no attribute delete_gym''), store [])"
proof -
  have g: "crud_get_gym (store []) 1 = Some gym1"
    by (simp add: crud_get_gym_def fixtures)
  have r: "py_in (PUserRole (user_role owner1)) [PUserRole gym_owner, PUserRole admin]"
    by (simp add: py_in_roles owner1_def)
  have o: "gym_owner_id gym1 = user_id owner1" by (simp add: owner1_def gym1_def)
  from delete_gym_never_deletes [of "store []" 1 gym1 owner1] g r o show ?thesis
    by simp
qed

end
